theory Spec2Isabelle
  imports Main "HOL-Library.Word" "HOL-Library.Sublist"
begin

unbundle bit_operations_syntax

section \<open>Strings and bytes\<close>

text \<open>
  The strings of a request body are held as the bytes of their UTF-8 encoding, the form
  in which the body arrives; on such a string \<open>text.encode()\<close> reads off those
  bytes. A Python \<open>str\<close> in general, which may hold a code point that has no UTF-8
  encoding, is treated with \<open>sha256_str\<close> below.
\<close>

type_synonym byte = "8 word"
type_synonym u32 = "32 word"

definition encode :: "string \<Rightarrow> byte list" where
  "encode text = map (\<lambda>c. of_nat (of_char c)) text"

section \<open>The hashing utility\<close>

subsection \<open>SHA-256 as \<open>hashlib.sha256\<close> computes it (FIPS 180-4)\<close>

definition K256 :: "u32 list" where
  "K256 =
   [0x428A2F98, 0x71374491, 0xB5C0FBCF, 0xE9B5DBA5, 0x3956C25B, 0x59F111F1, 0x923F82A4, 0xAB1C5ED5,
    0xD807AA98, 0x12835B01, 0x243185BE, 0x550C7DC3, 0x72BE5D74, 0x80DEB1FE, 0x9BDC06A7, 0xC19BF174,
    0xE49B69C1, 0xEFBE4786, 0x0FC19DC6, 0x240CA1CC, 0x2DE92C6F, 0x4A7484AA, 0x5CB0A9DC, 0x76F988DA,
    0x983E5152, 0xA831C66D, 0xB00327C8, 0xBF597FC7, 0xC6E00BF3, 0xD5A79147, 0x06CA6351, 0x14292967,
    0x27B70A85, 0x2E1B2138, 0x4D2C6DFC, 0x53380D13, 0x650A7354, 0x766A0ABB, 0x81C2C92E, 0x92722C85,
    0xA2BFE8A1, 0xA81A664B, 0xC24B8B70, 0xC76C51A3, 0xD192E819, 0xD6990624, 0xF40E3585, 0x106AA070,
    0x19A4C116, 0x1E376C08, 0x2748774C, 0x34B0BCB5, 0x391C0CB3, 0x4ED8AA4A, 0x5B9CCA4F, 0x682E6FF3,
    0x748F82EE, 0x78A5636F, 0x84C87814, 0x8CC70208, 0x90BEFFFA, 0xA4506CEB, 0xBEF9A3F7, 0xC67178F2]"

type_synonym hstate = "u32 \<times> u32 \<times> u32 \<times> u32 \<times> u32 \<times> u32 \<times> u32 \<times> u32"

definition H0 :: hstate where
  "H0 = (0x6A09E667, 0xBB67AE85, 0x3C6EF372, 0xA54FF53A,
         0x510E527F, 0x9B05688C, 0x1F83D9AB, 0x5BE0CD19)"

definition rotr :: "nat \<Rightarrow> u32 \<Rightarrow> u32" where
  "rotr n x = drop_bit n x OR push_bit (32 - n) x"

definition Ch :: "u32 \<Rightarrow> u32 \<Rightarrow> u32 \<Rightarrow> u32" where
  "Ch x y z = (x AND y) XOR (NOT x AND z)"

definition Maj :: "u32 \<Rightarrow> u32 \<Rightarrow> u32 \<Rightarrow> u32" where
  "Maj x y z = (x AND y) XOR (x AND z) XOR (y AND z)"

definition Sigma0 :: "u32 \<Rightarrow> u32" where
  "Sigma0 x = rotr 2 x XOR rotr 13 x XOR rotr 22 x"

definition Sigma1 :: "u32 \<Rightarrow> u32" where
  "Sigma1 x = rotr 6 x XOR rotr 11 x XOR rotr 25 x"

definition sigma0 :: "u32 \<Rightarrow> u32" where
  "sigma0 x = rotr 7 x XOR rotr 18 x XOR drop_bit 3 x"

definition sigma1 :: "u32 \<Rightarrow> u32" where
  "sigma1 x = rotr 17 x XOR rotr 19 x XOR drop_bit 10 x"

text \<open>The message is padded with \<open>0x80\<close>, zeros up to 56 modulo 64, and its bit length
  as a big-endian 64-bit number.\<close>

definition be64 :: "nat \<Rightarrow> byte list" where
  "be64 n = map (\<lambda>i. of_nat (n div 256 ^ i)) [7, 6, 5, 4, 3, 2, 1, 0]"

definition pad :: "byte list \<Rightarrow> byte list" where
  "pad m = m @ [0x80] @ replicate ((119 - length m mod 64) mod 64) 0 @ be64 (8 * length m)"

fun be_words :: "byte list \<Rightarrow> u32 list" where
  "be_words (a # b # c # d # rest) =
     (push_bit 24 (ucast a) OR push_bit 16 (ucast b) OR push_bit 8 (ucast c) OR ucast d)
       # be_words rest"
| "be_words _ = []"

fun blocks :: "byte list \<Rightarrow> byte list list" where
  "blocks m = (if m = [] then [] else take 64 m # blocks (drop 64 m))"

text \<open>The message schedule: \<open>n\<close> more words appended to the sixteen of the block.\<close>

fun schedule :: "nat \<Rightarrow> u32 list \<Rightarrow> u32 list" where
  "schedule 0 w = w"
| "schedule (Suc n) w =
     (let t = length w in
      schedule n (w @ [sigma1 (w ! (t - 2)) + w ! (t - 7) + sigma0 (w ! (t - 15)) + w ! (t - 16)]))"

fun round256 :: "hstate \<Rightarrow> u32 \<times> u32 \<Rightarrow> hstate" where
  "round256 (a, b, c, d, e, f, g, h) (k, w) =
     (let t1 = h + Sigma1 e + Ch e f g + k + w;
          t2 = Sigma0 a + Maj a b c
      in (t1 + t2, a, b, c, d + t1, e, f, g))"

fun add_state :: "hstate \<Rightarrow> hstate \<Rightarrow> hstate" where
  "add_state (a, b, c, d, e, f, g, h) (a', b', c', d', e', f', g', h') =
     (a + a', b + b', c + c', d + d', e + e', f + f', g + g', h + h')"

definition compress :: "hstate \<Rightarrow> byte list \<Rightarrow> hstate" where
  "compress hs blk =
     add_state hs (foldl round256 hs (zip K256 (schedule 48 (be_words blk))))"

definition sha256_digest :: "byte list \<Rightarrow> hstate" where
  "sha256_digest m = foldl compress H0 (blocks (pad m))"

subsection \<open>The hexadecimal rendering\<close>

definition hex_digit :: "u32 \<Rightarrow> char" where
  "hex_digit n = ''0123456789abcdef'' ! unat (n AND 0xF)"

definition hex32 :: "u32 \<Rightarrow> string" where
  "hex32 w = map (\<lambda>i. hex_digit (drop_bit (4 * i) w)) [7, 6, 5, 4, 3, 2, 1, 0]"

fun hexdigest :: "hstate \<Rightarrow> string" where
  "hexdigest (a, b, c, d, e, f, g, h) =
     hex32 a @ hex32 b @ hex32 c @ hex32 d @ hex32 e @ hex32 f @ hex32 g @ hex32 h"

text \<open>\<^verbatim>\<open>def sha256(text: str) -> str: return hashlib.sha256(text.encode()).hexdigest()\<close>\<close>

definition sha256 :: "string \<Rightarrow> string" where
  "sha256 text = hexdigest (sha256_digest (encode text))"

section \<open>Documents\<close>

text \<open>
  The values a stored document or a response holds. An \<open>ObjectId\<close> is held as the text
  \<open>str\<close> gives for it: the lower-case hexadecimal digits of its bytes, 24 for an
  identifier of the store.
\<close>

datatype val = VNull | VBool bool | VInt int | VStr string | VList "val list" | VOid string

type_synonym oid = string
type_synonym fields = "string \<rightharpoonup> val"

text \<open>
  A document of a collection is its identifier together with its other fields: the store
  gives every document an \<open>_id\<close>. \<open>as_dict\<close> is the dict that a read hands to Python.
\<close>

type_synonym document = "oid \<times> fields"

definition as_dict :: "document \<Rightarrow> fields" where
  "as_dict d = (snd d)(''_id'' \<mapsto> VOid (fst d))"

text \<open>\<open>d.get(k, dflt)\<close>, and Python's truth value of a stored value.\<close>

definition dict_get :: "fields \<Rightarrow> string \<Rightarrow> val \<Rightarrow> val" where
  "dict_get d k dflt = (case d k of None \<Rightarrow> dflt | Some v \<Rightarrow> v)"

fun truthy :: "val \<Rightarrow> bool" where
  "truthy VNull = False"
| "truthy (VBool b) = b"
| "truthy (VInt n) = (n \<noteq> 0)"
| "truthy (VStr s) = (s \<noteq> [])"
| "truthy (VList xs) = (xs \<noteq> [])"
| "truthy (VOid i) = True"

section \<open>Exceptions and responses\<close>

datatype exn =
    HTTPException nat string
  | StoreFailure string
  | ValidationError
  | InvalidId
  | UnicodeEncodeError

record diagnostic =
  backend :: string
  database :: string
  database_url :: "string option"
  database_name :: "string option"
  connection_status :: string
  collections :: "string list"

datatype response =
    Root string string
  | Diagnostic diagnostic
  | Registered string
  | LoggedIn val
  | Contributed string
  | Challenges "fields list"
  | FlagAccepted string
  | Board "(val \<times> int) list"

text \<open>
  The status the framework answers with: an \<open>HTTPException\<close> carries its own, any other
  exception that leaves a handler is the generic internal error.
\<close>

fun status :: "exn + response \<Rightarrow> nat" where
  "status (Inr r) = 200"
| "status (Inl (HTTPException code detail)) = code"
| "status (Inl e) = 500"

section \<open>The hashing utility on a Python \<open>str\<close>\<close>

text \<open>
  A \<open>str\<close> is a sequence of code points, numbers below \<open>0x110000\<close>. \<open>text.encode()\<close>
  gives its UTF-8 bytes and raises \<open>UnicodeEncodeError\<close> on a surrogate (\<open>0xD800\<close> to
  \<open>0xDFFF\<close>); a number from \<open>0x110000\<close> on is no code point and is refused as well.
\<close>

type_synonym str = "nat list"

definition encodable :: "nat \<Rightarrow> bool" where
  "encodable c = (c < 0xD800 \<or> (0xDFFF < c \<and> c < 0x110000))"

definition utf8 :: "nat \<Rightarrow> byte list" where
  "utf8 c =
     (if c < 0x80 then [of_nat c]
      else if c < 0x800 then [of_nat (0xC0 + c div 64), of_nat (0x80 + c mod 64)]
      else if c < 0x10000
      then [of_nat (0xE0 + c div 4096), of_nat (0x80 + c div 64 mod 64),
            of_nat (0x80 + c mod 64)]
      else [of_nat (0xF0 + c div 262144), of_nat (0x80 + c div 4096 mod 64),
            of_nat (0x80 + c div 64 mod 64), of_nat (0x80 + c mod 64)])"

fun str_encode :: "str \<Rightarrow> exn + byte list" where
  "str_encode [] = Inr []"
| "str_encode (c # cs) =
     (if encodable c
      then (case str_encode cs of Inl e \<Rightarrow> Inl e | Inr bs \<Rightarrow> Inr (utf8 c @ bs))
      else Inl UnicodeEncodeError)"

text \<open>
  \<^verbatim>\<open>def sha256(text: str) -> str: return hashlib.sha256(text.encode()).hexdigest()\<close>
  on any \<open>str\<close>: the exception of \<open>encode\<close> leaves the function, and otherwise the
  result is the digest of the encoding, as \<open>sha256\<close> is on a string held in that form.
\<close>

definition sha256_str :: "str \<Rightarrow> exn + string" where
  "sha256_str text =
     (case str_encode text of
        Inl e \<Rightarrow> Inl e
      | Inr bs \<Rightarrow> Inr (hexdigest (sha256_digest bs)))"

section \<open>The document store\<close>

text \<open>
  The filters the handlers pass: \<open>{k: v}\<close> is \<open>Field k v\<close>, a dict of several keys is
  their conjunction, \<open>{"$or": [...]}\<close> a disjunction. A field matches when the document
  has it with that very value.
\<close>

datatype query = Field string val | AllOf "query list" | AnyOf "query list"

fun matches :: "document \<Rightarrow> query \<Rightarrow> bool" where
  "matches d (Field k v) = (as_dict d k = Some v)"
| "matches d (AllOf qs) = list_all (matches d) qs"
| "matches d (AnyOf qs) = list_ex (matches d) qs"

record db =
  colls :: "string \<Rightarrow> document list"
  next_oid :: nat

text \<open>
  A store call may raise (store unreachable, query failure, no handle). \<open>faults\<close> says,
  for the store calls of one request in the order the handler makes them, whether the call
  raises and with which text.
\<close>

type_synonym faults = "nat \<Rightarrow> string option"

definition no_faults :: faults where
  "no_faults = (\<lambda>i. None)"

fun hex_nat :: "nat \<Rightarrow> nat \<Rightarrow> string" where
  "hex_nat 0 n = []"
| "hex_nat (Suc k) n = hex_nat k (n div 16) @ [''0123456789abcdef'' ! (n mod 16)]"

definition new_oid :: "db \<Rightarrow> oid" where
  "new_oid s = hex_nat 24 (next_oid s)"

text \<open>
  Modelled from the spec: \<open>create_document\<close> of the store adapter (module \<open>database\<close>),
  which is not among the sources. The spec: it "assigns a store-generated unique
  identifier, persists the record, returns the identifier as an opaque string"; a store
  failure propagates. The identifier is drawn from a counter.
\<close>

definition create_document :: "string option \<Rightarrow> db \<Rightarrow> string \<Rightarrow> fields \<Rightarrow> (exn + string) \<times> db" where
  "create_document fault s collection_name data =
     (case fault of
        Some msg \<Rightarrow> (Inl (StoreFailure msg), s)
      | None \<Rightarrow>
          (Inr (new_oid s),
           s\<lparr>colls := (colls s)(collection_name := colls s collection_name @ [(new_oid s, data)]),
             next_oid := Suc (next_oid s)\<rparr>))"

text \<open>
  Modelled from the spec: \<open>get_documents\<close> of the store adapter, not among the sources.
  The spec: it "returns up to \<open>limit\<close> matching documents, store-defined order"; the order
  here is the order of insertion.
\<close>

definition get_documents :: "string option \<Rightarrow> db \<Rightarrow> string \<Rightarrow> query \<Rightarrow> nat \<Rightarrow> exn + document list" where
  "get_documents fault s collection_name filter_dict limit =
     (case fault of
        Some msg \<Rightarrow> Inl (StoreFailure msg)
      | None \<Rightarrow> Inr (take limit (filter (\<lambda>d. matches d filter_dict) (colls s collection_name))))"

text \<open>
  Modelled from the spec: \<open>db[collection].find_one(filter)\<close>, which "returns the first
  matching document or an absence signal".
\<close>

definition find_one :: "string option \<Rightarrow> db \<Rightarrow> string \<Rightarrow> query \<Rightarrow> exn + document option" where
  "find_one fault s collection_name filter_dict =
     (case fault of
        Some msg \<Rightarrow> Inl (StoreFailure msg)
      | None \<Rightarrow> Inr (find (\<lambda>d. matches d filter_dict) (colls s collection_name)))"

text \<open>
  Modelled from the spec: \<open>db[collection].aggregate(pipeline)\<close> for the one pipeline in
  use: \<open>$group\<close> by a field (a missing one groups under null) with the \<open>$sum\<close> of another
  (a value that is not a number adds nothing), \<open>$sort\<close> by that sum, descending, and
  \<open>$limit\<close>. A row is the pair of its \<open>_id\<close> and its \<open>score\<close>.
\<close>

record pipeline =
  group_id :: string
  sum_field :: string
  limit_rows :: nat

fun numeric :: "val \<Rightarrow> int" where
  "numeric (VInt n) = n"
| "numeric v = 0"

definition group_key :: "string \<Rightarrow> document \<Rightarrow> val" where
  "group_key k d = dict_get (as_dict d) k VNull"

definition group_total :: "string \<Rightarrow> string \<Rightarrow> document list \<Rightarrow> val \<Rightarrow> int" where
  "group_total k f ds g =
     sum_list (map (\<lambda>d. numeric (dict_get (as_dict d) f VNull)) (filter (\<lambda>d. group_key k d = g) ds))"

definition group_sum :: "string \<Rightarrow> string \<Rightarrow> document list \<Rightarrow> (val \<times> int) list" where
  "group_sum k f ds = map (\<lambda>g. (g, group_total k f ds g)) (remdups (map (group_key k) ds))"

definition sort_desc :: "(val \<times> int) list \<Rightarrow> (val \<times> int) list" where
  "sort_desc rows = sort_key (\<lambda>r. - snd r) rows"

definition aggregate :: "string option \<Rightarrow> db \<Rightarrow> string \<Rightarrow> pipeline \<Rightarrow> exn + (val \<times> int) list" where
  "aggregate fault s collection_name p =
     (case fault of
        Some msg \<Rightarrow> Inl (StoreFailure msg)
      | None \<Rightarrow>
          Inr (take (limit_rows p)
                 (sort_desc (group_sum (group_id p) (sum_field p) (colls s collection_name)))))"

text \<open>
  \<open>ObjectId(text)\<close> of the driver: a text of 24 characters is handed to
  \<open>bytes.fromhex\<close>, and \<open>InvalidId\<close> is raised when the length is another or
  \<open>fromhex\<close> refuses the text. \<open>fromhex\<close> reads pairs of hexadecimal digits and
  skips ASCII whitespace before a pair and at the end, so a text of 24 characters with
  whitespace in it gives an identifier of fewer than 12 bytes. The identifier is held
  as the text \<open>str\<close> gives for it, the lower-case digits of its bytes.
\<close>

definition is_hex_char :: "char \<Rightarrow> bool" where
  "is_hex_char c = (c \<in> set ''0123456789abcdefABCDEF'')"

definition lower_hex :: "char \<Rightarrow> char" where
  "lower_hex c =
     (if c = CHR ''A'' then CHR ''a'' else if c = CHR ''B'' then CHR ''b''
      else if c = CHR ''C'' then CHR ''c'' else if c = CHR ''D'' then CHR ''d''
      else if c = CHR ''E'' then CHR ''e'' else if c = CHR ''F'' then CHR ''f'' else c)"

definition is_space :: "char \<Rightarrow> bool" where
  "is_space c = (c \<in> set [CHR 0x09, CHR 0x0A, CHR 0x0B, CHR 0x0C, CHR 0x0D, CHR 0x20])"

fun fromhex :: "string \<Rightarrow> string option" where
  "fromhex [] = Some []"
| "fromhex [c] = (if is_space c then Some [] else None)"
| "fromhex (c # d # rest) =
     (if is_space c then fromhex (d # rest)
      else if is_hex_char c \<and> is_hex_char d
      then (case fromhex rest of
              None \<Rightarrow> None
            | Some digits \<Rightarrow> Some (lower_hex c # lower_hex d # digits))
      else None)"

definition ObjectId :: "string \<Rightarrow> exn + oid" where
  "ObjectId text =
     (if length text = 24
      then (case fromhex text of None \<Rightarrow> Inl InvalidId | Some digits \<Rightarrow> Inr digits)
      else Inl InvalidId)"

section \<open>Schemas\<close>

text \<open>
  The constructors of \<^verbatim>\<open>schemas.py\<close>, giving the fields that are stored. Text fields
  accept every string; the email has passed the same check when the request was read.
  \<open>points\<close> carries \<open>ge=0\<close>, and a value that fails it raises a validation error.
\<close>

definition opt_str :: "string option \<Rightarrow> val" where
  "opt_str x = (case x of None \<Rightarrow> VNull | Some t \<Rightarrow> VStr t)"

definition opt_tags :: "string list option \<Rightarrow> val" where
  "opt_tags x = (case x of None \<Rightarrow> VNull | Some ts \<Rightarrow> VList (map VStr ts))"

definition UserSchema :: "string \<Rightarrow> string \<Rightarrow> string \<Rightarrow> string option \<Rightarrow> string option \<Rightarrow> fields" where
  "UserSchema username email password_hash bio avatar_url =
     [''username'' \<mapsto> VStr username, ''email'' \<mapsto> VStr email,
      ''password_hash'' \<mapsto> VStr password_hash, ''bio'' \<mapsto> opt_str bio,
      ''avatar_url'' \<mapsto> opt_str avatar_url]"

definition ChallengeSchema ::
  "string \<Rightarrow> string \<Rightarrow> string \<Rightarrow> int \<Rightarrow> string \<Rightarrow> string list option \<Rightarrow> bool \<Rightarrow> exn + fields" where
  "ChallengeSchema title description flag_hash points author tags is_active =
     (if 0 \<le> points
      then Inr [''title'' \<mapsto> VStr title, ''description'' \<mapsto> VStr description,
                ''flag_hash'' \<mapsto> VStr flag_hash, ''points'' \<mapsto> VInt points,
                ''author'' \<mapsto> VStr author, ''tags'' \<mapsto> opt_tags tags,
                ''is_active'' \<mapsto> VBool is_active]
      else Inl ValidationError)"

text \<open>
  \<open>Solve\<close> receives its points from a stored document, so as any value. An integer is
  taken as it is and a boolean as 0 or 1; other values are refused (the numeric strings
  that the validation library would also convert are never stored by this program).
\<close>

fun as_int :: "val \<Rightarrow> int option" where
  "as_int (VInt n) = Some n"
| "as_int (VBool b) = Some (if b then 1 else 0)"
| "as_int v = None"

definition SolveSchema :: "string \<Rightarrow> string \<Rightarrow> val \<Rightarrow> exn + fields" where
  "SolveSchema challenge_id username points =
     (case as_int points of
        None \<Rightarrow> Inl ValidationError
      | Some n \<Rightarrow>
          if 0 \<le> n
          then Inr [''challenge_id'' \<mapsto> VStr challenge_id, ''username'' \<mapsto> VStr username,
                    ''points'' \<mapsto> VInt n]
          else Inl ValidationError)"

section \<open>Requests\<close>

record RegisterRequest =
  reg_username :: string
  reg_email :: string
  reg_password :: string

record LoginRequest =
  login_username :: string
  login_password :: string

record SubmitChallengeRequest =
  title :: string
  description :: string
  flag :: string
  points :: int
  tags :: "string list option"

record SubmitFlagRequest =
  challenge_id :: string
  submitted_flag :: string

section \<open>The endpoints\<close>

text \<open>
  A handler takes the faults of its store calls, the store and the request body, and gives
  the response or the exception that leaves it, with the store afterwards.
\<close>

type_synonym outcome = "(exn + response) \<times> db"

definition read_root :: response where
  "read_root = Root ''MANGESTIC CTF'' ''ok''"

subsection \<open>\<open>GET /test\<close>\<close>

text \<open>The three signs of the status texts, as their UTF-8 bytes.\<close>

definition check_mark :: string where
  "check_mark = [CHR 0xE2, CHR 0x9C, CHR 0x85]"

definition cross_mark :: string where
  "cross_mark = [CHR 0xE2, CHR 0x9D, CHR 0x8C]"

definition warning_sign :: string where
  "warning_sign = [CHR 0xE2, CHR 0x9A, CHR 0xA0, CHR 0xEF, CHR 0xB8, CHR 0x8F]"

text \<open>\<open>text[:n]\<close> keeps \<open>n\<close> characters: the bytes up to the start of character \<open>n + 1\<close>.\<close>

definition is_continuation :: "char \<Rightarrow> bool" where
  "is_continuation c = (128 \<le> (of_char c :: nat) \<and> (of_char c :: nat) < 192)"

fun take_chars :: "nat \<Rightarrow> string \<Rightarrow> string" where
  "take_chars n [] = []"
| "take_chars n (c # cs) =
     (if is_continuation c then c # take_chars n cs
      else (case n of 0 \<Rightarrow> [] | Suc m \<Rightarrow> c # take_chars m cs))"

text \<open>
  What the process was started with: the variable \<open>DATABASE_URL\<close>, the name of the
  database behind the handle \<open>db\<close> (none when \<open>db is None\<close>), and the names of its
  collections.
\<close>

record deployment =
  DATABASE_URL :: "string option"
  db_name :: "string option"
  collection_names :: "string list"

definition test_database :: "faults \<Rightarrow> deployment \<Rightarrow> diagnostic" where
  "test_database flt dep =
     (let response = \<lparr>backend = check_mark @ '' Running'',
                       database = cross_mark @ '' Not Available'',
                       database_url = None, database_name = None,
                       connection_status = ''Not Connected'', collections = []\<rparr>
      in case db_name dep of
           None \<Rightarrow> response\<lparr>database := warning_sign @ ''  Available but not initialized''\<rparr>
         | Some name \<Rightarrow>
             (let response = response
                    \<lparr>database := check_mark @ '' Available'',
                     database_url :=
                       Some (if DATABASE_URL dep \<noteq> None \<and> DATABASE_URL dep \<noteq> Some []
                             then check_mark @ '' Set'' else cross_mark @ '' Not Set''),
                     database_name := Some name,
                     connection_status := ''Connected''\<rparr>
              in case flt 0 of
                   None \<Rightarrow>
                     response\<lparr>collections := take 10 (collection_names dep),
                              database := check_mark @ '' Connected & Working''\<rparr>
                 | Some msg \<Rightarrow>
                     response\<lparr>database :=
                       warning_sign @ ''  Connected but Error: '' @ take_chars 50 msg\<rparr>))"

subsection \<open>\<open>POST /api/register\<close> and \<open>POST /api/login\<close>\<close>

definition register :: "faults \<Rightarrow> db \<Rightarrow> RegisterRequest \<Rightarrow> outcome" where
  "register flt s payload =
     (case find_one (flt 0) s ''user''
             (AnyOf [Field ''username'' (VStr (reg_username payload)),
                     Field ''email'' (VStr (reg_email payload))]) of
        Inl e \<Rightarrow> (Inl e, s)
      | Inr (Some existing) \<Rightarrow>
          (Inl (HTTPException 400 ''Username or email already exists''), s)
      | Inr None \<Rightarrow>
          (let user = UserSchema (reg_username payload) (reg_email payload)
                        (sha256 (reg_password payload)) None None
           in case create_document (flt 1) s ''user'' user of
                (Inl e, s') \<Rightarrow> (Inl e, s')
              | (Inr user_id, s') \<Rightarrow> (Inr (Registered user_id), s')))"

definition login :: "faults \<Rightarrow> db \<Rightarrow> LoginRequest \<Rightarrow> outcome" where
  "login flt s payload =
     (let hashed = sha256 (login_password payload)
      in case find_one (flt 0) s ''user''
                (AllOf [Field ''username'' (VStr (login_username payload)),
                        Field ''password_hash'' (VStr hashed)]) of
           Inl e \<Rightarrow> (Inl e, s)
         | Inr None \<Rightarrow> (Inl (HTTPException 401 ''Invalid credentials''), s)
         | Inr (Some user) \<Rightarrow> (Inr (LoggedIn (dict_get (as_dict user) ''username'' VNull)), s))"

subsection \<open>\<open>POST /api/challenges\<close> and \<open>GET /api/challenges\<close>\<close>

definition contribute_challenge :: "faults \<Rightarrow> db \<Rightarrow> SubmitChallengeRequest \<Rightarrow> outcome" where
  "contribute_challenge flt s payload =
     (case ChallengeSchema (title payload) (description payload) (sha256 (flag payload))
             (points payload) ''anonymous'' (tags payload) True of
        Inl e \<Rightarrow> (Inl e, s)
      | Inr ch \<Rightarrow>
          (case create_document (flt 0) s ''challenge'' ch of
             (Inl e, s') \<Rightarrow> (Inl e, s')
           | (Inr ch_id, s') \<Rightarrow> (Inr (Contributed ch_id), s')))"

text \<open>The loop body of \<open>list_challenges\<close>: \<open>_id\<close> becomes its text, \<open>flag_hash\<close> is popped.\<close>

definition strip_item :: "document \<Rightarrow> fields" where
  "strip_item d = (as_dict d)(''_id'' \<mapsto> VStr (fst d), ''flag_hash'' := None)"

definition list_challenges :: "faults \<Rightarrow> db \<Rightarrow> outcome" where
  "list_challenges flt s =
     (case get_documents (flt 0) s ''challenge'' (Field ''is_active'' (VBool True)) 100 of
        Inl e \<Rightarrow> (Inl e, s)
      | Inr items \<Rightarrow> (Inr (Challenges (map strip_item items)), s))"

subsection \<open>\<open>POST /api/submit-flag\<close> and \<open>GET /api/leaderboard\<close>\<close>

text \<open>
  The \<open>try\<close> encloses both the parsing of the identifier and the lookup, and its
  \<open>except Exception\<close> turns whatever either raises into the 400.
\<close>

definition find_challenge :: "faults \<Rightarrow> db \<Rightarrow> string \<Rightarrow> exn + document option" where
  "find_challenge flt s cid =
     (case ObjectId cid of
        Inl e \<Rightarrow> Inl e
      | Inr i \<Rightarrow> find_one (flt 0) s ''challenge'' (Field ''_id'' (VOid i)))"

definition submit_flag :: "faults \<Rightarrow> db \<Rightarrow> SubmitFlagRequest \<Rightarrow> outcome" where
  "submit_flag flt s payload =
     (case find_challenge flt s (challenge_id payload) of
        Inl e \<Rightarrow> (Inl (HTTPException 400 ''Invalid challenge id''), s)
      | Inr None \<Rightarrow> (Inl (HTTPException 404 ''Challenge not found''), s)
      | Inr (Some ch) \<Rightarrow>
          if \<not> truthy (dict_get (as_dict ch) ''is_active'' (VBool True))
          then (Inl (HTTPException 404 ''Challenge not found''), s)
          else if VStr (sha256 (submitted_flag payload)) \<noteq> dict_get (as_dict ch) ''flag_hash'' VNull
          then (Inl (HTTPException 400 ''Incorrect flag''), s)
          else (case SolveSchema (fst ch) ''anonymous'' (dict_get (as_dict ch) ''points'' (VInt 0)) of
                  Inl e \<Rightarrow> (Inl e, s)
                | Inr solve \<Rightarrow>
                    (case create_document (flt 1) s ''solve'' solve of
                       (Inl e, s') \<Rightarrow> (Inl e, s')
                     | (Inr solve_id, s') \<Rightarrow> (Inr (FlagAccepted ''Flag accepted''), s'))))"

definition leaderboard :: "faults \<Rightarrow> db \<Rightarrow> outcome" where
  "leaderboard flt s =
     (case aggregate (flt 0) s ''solve''
             \<lparr>group_id = ''username'', sum_field = ''points'', limit_rows = 50\<rparr> of
        Inl e \<Rightarrow> (Inl e, s)
      | Inr rows \<Rightarrow> (Inr (Board (map (\<lambda>r. (fst r, snd r)) rows)), s))"

subsection \<open>The application\<close>

datatype request =
    GetRoot
  | GetTest deployment
  | PostRegister RegisterRequest
  | PostLogin LoginRequest
  | PostChallenges SubmitChallengeRequest
  | GetChallenges
  | PostSubmitFlag SubmitFlagRequest
  | GetLeaderboard

fun app :: "faults \<Rightarrow> db \<Rightarrow> request \<Rightarrow> outcome" where
  "app flt s GetRoot = (Inr read_root, s)"
| "app flt s (GetTest dep) = (Inr (Diagnostic (test_database flt dep)), s)"
| "app flt s (PostRegister payload) = register flt s payload"
| "app flt s (PostLogin payload) = login flt s payload"
| "app flt s (PostChallenges payload) = contribute_challenge flt s payload"
| "app flt s GetChallenges = list_challenges flt s"
| "app flt s (PostSubmitFlag payload) = submit_flag flt s payload"
| "app flt s GetLeaderboard = leaderboard flt s"

text \<open>The process serves one request after the other, each with the faults the store has
  for it; \<open>serve\<close> gives the store after all of them.\<close>

fun serve :: "(faults \<times> request) list \<Rightarrow> db \<Rightarrow> db" where
  "serve [] s = s"
| "serve ((flt, r) # rest) s = serve rest (snd (app flt s r))"

section \<open>A store to run the endpoints on\<close>

text \<open>
  One registered user; four challenges, of which the second was written by an older
  program and has neither \<open>is_active\<close> nor \<open>points\<close>, the third is switched off, and
  the fourth has no \<open>is_active\<close> and a \<open>flag_hash\<close> that is no digest; three solves by
  two names.
\<close>

definition empty_db :: db where
  "empty_db = \<lparr>colls = (\<lambda>c. []), next_oid = 0\<rparr>"

definition alice :: document where
  "alice = (''000000000000000000000000'',
            UserSchema ''alice'' ''alice@example.com'' (sha256 ''pw123'') None None)"

definition warmup :: document where
  "warmup = (''000000000000000000000001'',
     [''title'' \<mapsto> VStr ''Warmup'', ''description'' \<mapsto> VStr ''first steps'',
      ''flag_hash'' \<mapsto> VStr (sha256 ''flag{abc}''), ''points'' \<mapsto> VInt 100,
      ''author'' \<mapsto> VStr ''anonymous'', ''tags'' \<mapsto> VNull, ''is_active'' \<mapsto> VBool True])"

definition legacy :: document where
  "legacy = (''000000000000000000000002'',
     [''title'' \<mapsto> VStr ''Legacy'', ''flag_hash'' \<mapsto> VStr (sha256 ''flag{old}'')])"

definition retired :: document where
  "retired = (''000000000000000000000003'',
     [''title'' \<mapsto> VStr ''Retired'', ''flag_hash'' \<mapsto> VStr (sha256 ''flag{gone}''),
      ''points'' \<mapsto> VInt 50, ''is_active'' \<mapsto> VBool False])"

definition unsolvable :: document where
  "unsolvable = (''000000000000000000000007'',
     [''title'' \<mapsto> VStr ''Unsolvable'', ''flag_hash'' \<mapsto> VStr ''deadbeef'',
      ''points'' \<mapsto> VInt 10])"

definition solve_of :: "string \<Rightarrow> string \<Rightarrow> int \<Rightarrow> fields" where
  "solve_of cid name n =
     [''challenge_id'' \<mapsto> VStr cid, ''username'' \<mapsto> VStr name, ''points'' \<mapsto> VInt n]"

definition ctf_db :: db where
  "ctf_db =
     \<lparr>colls = (\<lambda>c. [])
        (''user'' := [alice],
         ''challenge'' := [warmup, legacy, retired, unsolvable],
         ''solve'' :=
           [(''000000000000000000000004'', solve_of ''000000000000000000000001'' ''anonymous'' 100),
            (''000000000000000000000005'', solve_of ''000000000000000000000001'' ''bob'' 250),
            (''000000000000000000000006'', solve_of ''000000000000000000000003'' ''anonymous'' 50)]),
      next_oid = 8\<rparr>"

text \<open>A store that cannot be reached: every call raises.\<close>

definition unreachable :: faults where
  "unreachable = (\<lambda>i. Some ''connection refused'')"

section \<open>Facts about the model\<close>

lemma hex_digit_range: "hex_digit n \<in> set ''0123456789abcdef''"
proof -
  have "unat (n AND 0xF) \<le> unat (0xF :: u32)"
    by (rule word_and_le1 [THEN word_le_nat_alt [THEN iffD1]])
  then have "unat (n AND 0xF) < length ''0123456789abcdef''"
    by simp
  then show ?thesis
    unfolding hex_digit_def by (rule nth_mem)
qed

lemma length_hex32: "length (hex32 w) = 8"
  by (simp add: hex32_def)

lemma set_hex32: "set (hex32 w) \<subseteq> set ''0123456789abcdef''"
  unfolding hex32_def set_map by (rule image_subsetI) (rule hex_digit_range)

lemma length_hexdigest: "length (hexdigest hs) = 64"
  by (cases hs rule: hexdigest.cases) (simp add: length_hex32)

lemma set_hexdigest: "set (hexdigest hs) \<subseteq> set ''0123456789abcdef''"
  using set_hex32 by (cases hs rule: hexdigest.cases) (simp del: set_simps)

lemma length_sha256: "length (sha256 text) = 64"
  by (simp add: sha256_def length_hexdigest)

lemma as_dict_id: "as_dict d ''_id'' = Some (VOid (fst d))"
  by (simp add: as_dict_def)

lemma as_dict_field: "k \<noteq> ''_id'' \<Longrightarrow> as_dict d k = snd d k"
  by (simp add: as_dict_def)

lemma matches_id: "matches d (Field ''_id'' (VOid i)) = (fst d = i)"
  by (simp add: as_dict_def)

lemma find_one_no_fault:
  "find_one None s c q = Inr (find (\<lambda>d. matches d q) (colls s c))"
  by (simp add: find_one_def)

lemma create_document_no_fault:
  "create_document None s c data =
     (Inr (new_oid s),
      s\<lparr>colls := (colls s)(c := colls s c @ [(new_oid s, data)]), next_oid := Suc (next_oid s)\<rparr>)"
  by (simp add: create_document_def)

lemma create_document_fault:
  "create_document (Some msg) s c data = (Inl (StoreFailure msg), s)"
  by (simp add: create_document_def)

section \<open>The hashing utility\<close>

lemma sha256_fixed_length_hex:
  "length (sha256 text) = 64 \<and> set (sha256 text) \<subseteq> set ''0123456789abcdef''"
  unfolding sha256_def using length_hexdigest set_hexdigest by simp

lemma str_encode_defined:
  "list_all encodable cps \<Longrightarrow> \<exists>bs. str_encode cps = Inr bs"
  by (induction cps) auto

lemma str_encode_raises:
  "\<not> list_all encodable cps \<Longrightarrow> str_encode cps = Inl UnicodeEncodeError"
proof (induction cps)
  case Nil
  then show ?case
    by simp
next
  case (Cons c cs)
  show ?case
  proof (cases "encodable c")
    case True
    with Cons.prems have "\<not> list_all encodable cs"
      by simp
    then have "str_encode cs = Inl UnicodeEncodeError"
      by (rule Cons.IH)
    with True show ?thesis
      by simp
  next
    case False
    then show ?thesis
      by simp
  qed
qed

lemma sha256_str_of_utf8:
  "str_encode text = Inr (encode t) \<Longrightarrow> sha256_str text = Inr (sha256 t)"
  by (simp add: sha256_str_def sha256_def)

text \<open>
  C6, as stated, fails: the utility is not defined on every string. On the string of
  the one code point \<open>0xD800\<close>, a lone surrogate, \<open>text.encode()\<close> raises and no digest
  is returned.
\<close>

theorem sha256_str_lone_surrogate:
  "sha256_str [0xD800] = Inl UnicodeEncodeError"
  by (simp add: sha256_str_def encodable_def)

text \<open>
  C6, amended. On every string without a surrogate code point, that is, on every string
  that has a UTF-8 encoding, the utility returns without error; what it returns is fixed
  by the string alone (there is one digest for it, whichever the call or the run, as
  nothing but the string enters the computation), and it is 64 characters long, each a
  lower-case hexadecimal digit. On every other string \<open>UnicodeEncodeError\<close> is raised.
\<close>

theorem sha256_str_defined_on_encodable:
  "(list_all encodable text \<longrightarrow>
      (\<exists>!digest. sha256_str text = Inr digest) \<and>
      (\<exists>digest. sha256_str text = Inr digest \<and> length digest = 64 \<and>
         set digest \<subseteq> set ''0123456789abcdef''))
   \<and> (\<not> list_all encodable text \<longrightarrow> sha256_str text = Inl UnicodeEncodeError)"
proof (intro conjI impI)
  assume "list_all encodable text"
  then obtain bs where bs: "str_encode text = Inr bs"
    using str_encode_defined by blast
  then have d: "sha256_str text = Inr (hexdigest (sha256_digest bs))"
    by (simp add: sha256_str_def)
  then show "\<exists>!digest. sha256_str text = Inr digest"
    by simp
  from d length_hexdigest [of "sha256_digest bs"] set_hexdigest [of "sha256_digest bs"]
  show "\<exists>digest. sha256_str text = Inr digest \<and> length digest = 64 \<and>
         set digest \<subseteq> set ''0123456789abcdef''"
    by (intro exI [of _ "hexdigest (sha256_digest bs)"] conjI)
next
  assume "\<not> list_all encodable text"
  then show "sha256_str text = Inl UnicodeEncodeError"
    by (simp add: sha256_str_def str_encode_raises)
qed

theorem sha256_str_defined_on_encodable_witness:
  "(\<exists>digest. sha256_str [0x61, 0xE9, 0x20AC, 0x1F600] = Inr digest \<and> length digest = 64 \<and>
       set digest \<subseteq> set ''0123456789abcdef'')
   \<and> sha256_str [0x61, 0xDFFF, 0x62] = Inl UnicodeEncodeError"
proof -
  have a: "list_all encodable [0x61, 0xE9, 0x20AC, 0x1F600]"
    and b: "\<not> list_all encodable [0x61, 0xDFFF, 0x62]"
    by (simp_all add: encodable_def)
  from a b show ?thesis
    using sha256_str_defined_on_encodable [of "[0x61, 0xE9, 0x20AC, 0x1F600]"]
      sha256_str_defined_on_encodable [of "[0x61, 0xDFFF, 0x62]"]
    by blast
qed

section \<open>Registration and login\<close>





section \<open>Challenges\<close>

lemma contribute_challenge_valid:
  "0 \<le> points p \<Longrightarrow>
   contribute_challenge flt s p =
     (case flt 0 of
        Some msg \<Rightarrow> (Inl (StoreFailure msg), s)
      | None \<Rightarrow>
          (Inr (Contributed (new_oid s)),
           s\<lparr>colls := (colls s)(''challenge'' := colls s ''challenge'' @
                 [(new_oid s, [''title'' \<mapsto> VStr (title p), ''description'' \<mapsto> VStr (description p),
      ''flag_hash'' \<mapsto> VStr (sha256 (flag p)), ''points'' \<mapsto> VInt (points p),
      ''author'' \<mapsto> VStr ''anonymous'', ''tags'' \<mapsto> opt_tags (tags p),
      ''is_active'' \<mapsto> VBool True])]),
             next_oid := Suc (next_oid s)\<rparr>))"
  by (simp add: contribute_challenge_def ChallengeSchema_def create_document_def
        split: option.split)

lemma challenge_fields_facts:
  fixes p :: SubmitChallengeRequest
  defines "ch \<equiv> [''title'' \<mapsto> VStr (title p), ''description'' \<mapsto> VStr (description p),
      ''flag_hash'' \<mapsto> VStr (sha256 (flag p)), ''points'' \<mapsto> VInt (points p),
      ''author'' \<mapsto> VStr ''anonymous'', ''tags'' \<mapsto> opt_tags (tags p),
      ''is_active'' \<mapsto> VBool True]"
  shows "ch ''flag_hash'' = Some (VStr (sha256 (flag p)))"
    and "ch ''is_active'' = Some (VBool True)"
    and "ch ''author'' = Some (VStr ''anonymous'')"
    and "ch ''points'' = Some (VInt (points p))"
    and "dom ch = {''title'', ''description'', ''flag_hash'', ''points'', ''author'',
                   ''tags'', ''is_active''}"
  unfolding ch_def by auto

lemma contribute_challenge_invalid:
  "points p < 0 \<Longrightarrow> contribute_challenge flt s p = (Inl ValidationError, s)"
  by (simp add: contribute_challenge_def ChallengeSchema_def)

text \<open>
  C8. Whenever a contribution succeeds, the submitted points are at least 0 and exactly
  one challenge has been appended, whose \<open>flag_hash\<close> is the hash of the submitted flag,
  whose \<open>is_active\<close> is true and whose \<open>author\<close> is "anonymous"; it has the seven fields
  of the schema and no other, so the flag itself is not among them. With a working store
  points of at least 0 do succeed, and negative points are refused before any store call.
\<close>

theorem contribute_challenge_stored:
  "(fst (contribute_challenge flt s p) = Inr r \<longrightarrow>
      0 \<le> points p \<and> r = Contributed (new_oid s) \<and>
      (\<exists>ch. colls (snd (contribute_challenge flt s p)) ''challenge''
              = colls s ''challenge'' @ [(new_oid s, ch)] \<and>
            ch ''flag_hash'' = Some (VStr (sha256 (flag p))) \<and>
            ch ''is_active'' = Some (VBool True) \<and>
            ch ''author'' = Some (VStr ''anonymous'') \<and>
            ch ''points'' = Some (VInt (points p)) \<and>
            dom ch = {''title'', ''description'', ''flag_hash'', ''points'', ''author'',
                      ''tags'', ''is_active''}))
   \<and> (0 \<le> points p \<longrightarrow>
        fst (contribute_challenge no_faults s p) = Inr (Contributed (new_oid s)))
   \<and> (points p < 0 \<longrightarrow> contribute_challenge flt s p = (Inl ValidationError, s))"
proof (intro conjI impI)
  let ?ch = "[''title'' \<mapsto> VStr (title p), ''description'' \<mapsto> VStr (description p),
      ''flag_hash'' \<mapsto> VStr (sha256 (flag p)), ''points'' \<mapsto> VInt (points p),
      ''author'' \<mapsto> VStr ''anonymous'', ''tags'' \<mapsto> opt_tags (tags p),
      ''is_active'' \<mapsto> VBool True]"
  assume ok: "fst (contribute_challenge flt s p) = Inr r"
  have valid: "0 \<le> points p"
  proof (rule ccontr)
    assume "\<not> 0 \<le> points p"
    then have "fst (contribute_challenge flt s p) = Inl ValidationError"
      by (simp add: contribute_challenge_invalid)
    with ok show False
      by simp
  qed
  then show "0 \<le> points p" .
  from ok have none: "flt 0 = None"
    by (cases "flt 0") (simp_all add: contribute_challenge_valid [OF valid])
  from ok show "r = Contributed (new_oid s)"
    by (simp add: contribute_challenge_valid [OF valid] none)
  have "colls (snd (contribute_challenge flt s p)) ''challenge''
          = colls s ''challenge'' @ [(new_oid s, ?ch)]"
    by (simp add: contribute_challenge_valid [OF valid] none)
  then show "\<exists>ch. colls (snd (contribute_challenge flt s p)) ''challenge''
              = colls s ''challenge'' @ [(new_oid s, ch)] \<and>
            ch ''flag_hash'' = Some (VStr (sha256 (flag p))) \<and>
            ch ''is_active'' = Some (VBool True) \<and>
            ch ''author'' = Some (VStr ''anonymous'') \<and>
            ch ''points'' = Some (VInt (points p)) \<and>
            dom ch = {''title'', ''description'', ''flag_hash'', ''points'', ''author'',
                      ''tags'', ''is_active''}"
    using challenge_fields_facts [of p] by (intro exI [of _ ?ch] conjI)
next
  assume "0 \<le> points p"
  then show "fst (contribute_challenge no_faults s p) = Inr (Contributed (new_oid s))"
    by (simp add: contribute_challenge_valid no_faults_def)
next
  assume "points p < 0"
  then show "contribute_challenge flt s p = (Inl ValidationError, s)"
    by (rule contribute_challenge_invalid)
qed

theorem contribute_challenge_stored_witness:
  "fst (contribute_challenge no_faults empty_db
          \<lparr>title = ''Warmup'', description = ''first steps'', flag = ''flag{abc}'',
           points = 100, tags = None\<rparr>) = Inr (Contributed (new_oid empty_db))
   \<and> contribute_challenge no_faults empty_db
          \<lparr>title = ''Warmup'', description = ''first steps'', flag = ''flag{abc}'',
           points = - 1, tags = None\<rparr> = (Inl ValidationError, empty_db)"
proof -
  let ?good = "\<lparr>title = ''Warmup'', description = ''first steps'', flag = ''flag{abc}'',
                 points = 100, tags = None\<rparr>"
  let ?bad = "\<lparr>title = ''Warmup'', description = ''first steps'', flag = ''flag{abc}'',
                points = - 1, tags = None\<rparr>"
  have g: "0 \<le> points ?good" and b: "points ?bad < 0"
    by simp_all
  from g b show ?thesis
    using contribute_challenge_stored [of no_faults empty_db ?good, THEN conjunct2, THEN conjunct1]
      contribute_challenge_stored [of no_faults empty_db ?bad, THEN conjunct2, THEN conjunct2]
    by blast
qed

lemma strip_item_no_flag_hash: "strip_item d ''flag_hash'' = None"
  by (simp add: strip_item_def)

text \<open>
  C4. With a working store and whatever the challenge collection holds, the listing
  succeeds with at most 100 items; each item comes from a stored challenge whose
  \<open>is_active\<close> is true, and no item has a \<open>flag_hash\<close> field.
\<close>

theorem list_challenges_active_stripped:
  "\<exists>items. list_challenges no_faults s = (Inr (Challenges items), s) \<and>
      length items \<le> 100 \<and>
      (\<forall>it \<in> set items.
         ''flag_hash'' \<notin> dom it \<and>
         (\<exists>d \<in> set (colls s ''challenge'').
            as_dict d ''is_active'' = Some (VBool True) \<and> it = strip_item d))"
proof -
  let ?found = "take 100 (filter (\<lambda>d. matches d (Field ''is_active'' (VBool True)))
                            (colls s ''challenge''))"
  have r: "list_challenges no_faults s = (Inr (Challenges (map strip_item ?found)), s)"
    by (simp add: list_challenges_def no_faults_def get_documents_def)
  have f: "set ?found \<subseteq> {d \<in> set (colls s ''challenge''). as_dict d ''is_active'' = Some (VBool True)}"
    using set_take_subset [of 100 "filter (\<lambda>d. matches d (Field ''is_active'' (VBool True)))
                            (colls s ''challenge'')"]
    by auto
  have "\<forall>it \<in> set (map strip_item ?found).
         ''flag_hash'' \<notin> dom it \<and>
         (\<exists>d \<in> set (colls s ''challenge'').
            as_dict d ''is_active'' = Some (VBool True) \<and> it = strip_item d)"
  proof
    fix it
    assume "it \<in> set (map strip_item ?found)"
    then obtain d where d: "d \<in> set ?found" and it: "it = strip_item d"
      by auto
    from d f have "d \<in> set (colls s ''challenge'')"
      and "as_dict d ''is_active'' = Some (VBool True)"
      by auto
    with it show "''flag_hash'' \<notin> dom it \<and>
         (\<exists>d \<in> set (colls s ''challenge'').
            as_dict d ''is_active'' = Some (VBool True) \<and> it = strip_item d)"
      by (auto simp: strip_item_no_flag_hash)
  qed
  moreover have "length (map strip_item ?found) \<le> 100"
    by simp
  ultimately show ?thesis
    using r by blast
qed

theorem list_challenges_active_stripped_witness:
  "\<exists>items. list_challenges no_faults ctf_db = (Inr (Challenges items), ctf_db) \<and>
      length items \<le> 100 \<and>
      (\<forall>it \<in> set items.
         ''flag_hash'' \<notin> dom it \<and>
         (\<exists>d \<in> set [warmup, legacy, retired, unsolvable].
            as_dict d ''is_active'' = Some (VBool True) \<and> it = strip_item d))"
proof -
  have c: "colls ctf_db ''challenge'' = [warmup, legacy, retired, unsolvable]"
    by (simp add: ctf_db_def)
  show ?thesis
    using list_challenges_active_stripped [of ctf_db] unfolding c .
qed

section \<open>Flag submission\<close>

lemma find_challenge_no_fault:
  "ObjectId cid = Inr i \<Longrightarrow>
   find_challenge no_faults s cid = Inr (find (\<lambda>d. fst d = i) (colls s ''challenge''))"
proof -
  have "(\<lambda>d. matches d (Field ''_id'' (VOid i))) = (\<lambda>d. fst d = i)"
    by (rule ext) (rule matches_id)
  then show "ObjectId cid = Inr i \<Longrightarrow> ?thesis"
    by (simp add: find_challenge_def no_faults_def find_one_no_fault)
qed


lemma flag_hash_differs:
  "(VStr h \<noteq> dict_get d ''flag_hash'' VNull) = (d ''flag_hash'' \<noteq> Some (VStr h))"
  by (cases "d ''flag_hash''") (auto simp: dict_get_def)

lemma submit_flag_found:
  assumes "ObjectId (challenge_id p) = Inr i"
    and "find (\<lambda>d. fst d = i) (colls s ''challenge'') = Some ch"
  shows "submit_flag no_faults s p =
     (if \<not> truthy (dict_get (as_dict ch) ''is_active'' (VBool True))
      then (Inl (HTTPException 404 ''Challenge not found''), s)
      else if as_dict ch ''flag_hash'' \<noteq> Some (VStr (sha256 (submitted_flag p)))
      then (Inl (HTTPException 400 ''Incorrect flag''), s)
      else (case SolveSchema (fst ch) ''anonymous'' (dict_get (as_dict ch) ''points'' (VInt 0)) of
              Inl e \<Rightarrow> (Inl e, s)
            | Inr solve \<Rightarrow>
                (Inr (FlagAccepted ''Flag accepted''),
                 s\<lparr>colls := (colls s)(''solve'' := colls s ''solve'' @ [(new_oid s, solve)]),
                   next_oid := Suc (next_oid s)\<rparr>)))"
  unfolding submit_flag_def find_challenge_no_fault [OF assms(1)] assms(2) flag_hash_differs
  by (simp add: no_faults_def create_document_no_fault split: sum.split)

lemma ctf_challenges: "colls ctf_db ''challenge'' = [warmup, legacy, retired, unsolvable]"
  by (simp add: ctf_db_def)

lemma ctf_ids:
  "fst warmup = ''000000000000000000000001''"
  "fst legacy = ''000000000000000000000002''"
  "fst retired = ''000000000000000000000003''"
  "fst unsolvable = ''000000000000000000000007''"
  by (simp_all add: warmup_def legacy_def retired_def unsolvable_def)

lemma ObjectId_examples:
  "ObjectId ''xyz'' = Inl InvalidId"
  "ObjectId ''ffffffffffffffffffffffff'' = Inr ''ffffffffffffffffffffffff''"
  "ObjectId ''000000000000000000000001'' = Inr ''000000000000000000000001''"
  "ObjectId ''000000000000000000000002'' = Inr ''000000000000000000000002''"
  "ObjectId ''000000000000000000000003'' = Inr ''000000000000000000000003''"
  "ObjectId ''000000000000000000000007'' = Inr ''000000000000000000000007''"
  "ObjectId ''00 00 00 00 00 00 00 00 '' = Inr ''0000000000000000''"
  by (simp_all add: ObjectId_def is_hex_char_def lower_hex_def is_space_def)

lemma ctf_find:
  "find (\<lambda>d. fst d = ''ffffffffffffffffffffffff'') (colls ctf_db ''challenge'') = None"
  "find (\<lambda>d. fst d = ''0000000000000000'') (colls ctf_db ''challenge'') = None"
  "find (\<lambda>d. fst d = ''000000000000000000000001'') (colls ctf_db ''challenge'') = Some warmup"
  "find (\<lambda>d. fst d = ''000000000000000000000002'') (colls ctf_db ''challenge'') = Some legacy"
  "find (\<lambda>d. fst d = ''000000000000000000000003'') (colls ctf_db ''challenge'') = Some retired"
  "find (\<lambda>d. fst d = ''000000000000000000000007'') (colls ctf_db ''challenge'') = Some unsolvable"
  by (simp_all add: ctf_challenges ctf_ids)

lemma ctf_fields:
  "as_dict warmup ''is_active'' = Some (VBool True)"
  "as_dict warmup ''flag_hash'' = Some (VStr (sha256 ''flag{abc}''))"
  "as_dict warmup ''points'' = Some (VInt 100)"
  "as_dict legacy ''is_active'' = None"
  "as_dict legacy ''flag_hash'' = Some (VStr (sha256 ''flag{old}''))"
  "as_dict legacy ''points'' = None"
  "as_dict retired ''is_active'' = Some (VBool False)"
  "as_dict unsolvable ''is_active'' = None"
  "as_dict unsolvable ''flag_hash'' = Some (VStr ''deadbeef'')"
  by (simp_all add: as_dict_def warmup_def legacy_def retired_def unsolvable_def)

lemma sha256_not_deadbeef: "sha256 text \<noteq> ''deadbeef''"
  using length_sha256 [of "text"] by auto

text \<open>
  C10. With a working store, for a stored challenge found under the submitted identifier:
  when it has no \<open>is_active\<close> field it is treated as active, that is, the flag is
  compared (a wrong flag is answered "Incorrect flag", not "Challenge not found", and a
  right one is accepted); and when an active challenge has no \<open>points\<close> field, the solve
  that a right flag creates carries 0 points.
\<close>

theorem submit_flag_missing_fields:
  "(ObjectId (challenge_id p) = Inr i \<and>
      find (\<lambda>d. fst d = i) (colls s ''challenge'') = Some ch \<and>
      as_dict ch ''is_active'' = None \<and>
      as_dict ch ''flag_hash'' \<noteq> Some (VStr (sha256 (submitted_flag p))) \<longrightarrow>
    submit_flag no_faults s p = (Inl (HTTPException 400 ''Incorrect flag''), s))
   \<and> (ObjectId (challenge_id p) = Inr i \<and>
      find (\<lambda>d. fst d = i) (colls s ''challenge'') = Some ch \<and>
      as_dict ch ''is_active'' = None \<and>
      as_dict ch ''flag_hash'' = Some (VStr (sha256 (submitted_flag p))) \<and>
      as_dict ch ''points'' = Some (VInt n) \<and> 0 \<le> n \<longrightarrow>
    submit_flag no_faults s p =
      (Inr (FlagAccepted ''Flag accepted''),
       s\<lparr>colls := (colls s)(''solve'' := colls s ''solve'' @
            [(new_oid s, [''challenge_id'' \<mapsto> VStr (fst ch),
                          ''username'' \<mapsto> VStr ''anonymous'',
                          ''points'' \<mapsto> VInt n])]),
         next_oid := Suc (next_oid s)\<rparr>))
   \<and> (ObjectId (challenge_id p) = Inr i \<and>
      find (\<lambda>d. fst d = i) (colls s ''challenge'') = Some ch \<and>
      truthy (dict_get (as_dict ch) ''is_active'' (VBool True)) \<and>
      as_dict ch ''flag_hash'' = Some (VStr (sha256 (submitted_flag p))) \<and>
      as_dict ch ''points'' = None \<longrightarrow>
    submit_flag no_faults s p =
      (Inr (FlagAccepted ''Flag accepted''),
       s\<lparr>colls := (colls s)(''solve'' := colls s ''solve'' @
            [(new_oid s, [''challenge_id'' \<mapsto> VStr (fst ch),
                          ''username'' \<mapsto> VStr ''anonymous'',
                          ''points'' \<mapsto> VInt 0])]),
         next_oid := Suc (next_oid s)\<rparr>))"
proof (intro conjI impI)
  assume "ObjectId (challenge_id p) = Inr i \<and>
      find (\<lambda>d. fst d = i) (colls s ''challenge'') = Some ch \<and>
      as_dict ch ''is_active'' = None \<and>
      as_dict ch ''flag_hash'' \<noteq> Some (VStr (sha256 (submitted_flag p)))"
  then show "submit_flag no_faults s p = (Inl (HTTPException 400 ''Incorrect flag''), s)"
    by (simp add: submit_flag_found dict_get_def)
next
  assume a: "ObjectId (challenge_id p) = Inr i \<and>
      find (\<lambda>d. fst d = i) (colls s ''challenge'') = Some ch \<and>
      as_dict ch ''is_active'' = None \<and>
      as_dict ch ''flag_hash'' = Some (VStr (sha256 (submitted_flag p))) \<and>
      as_dict ch ''points'' = Some (VInt n) \<and> 0 \<le> n"
  then have "SolveSchema (fst ch) ''anonymous'' (dict_get (as_dict ch) ''points'' (VInt 0))
      = Inr [''challenge_id'' \<mapsto> VStr (fst ch), ''username'' \<mapsto> VStr ''anonymous'',
             ''points'' \<mapsto> VInt n]"
    by (simp add: SolveSchema_def dict_get_def)
  moreover from a have "truthy (dict_get (as_dict ch) ''is_active'' (VBool True))"
    by (simp add: dict_get_def)
  ultimately show "submit_flag no_faults s p =
      (Inr (FlagAccepted ''Flag accepted''),
       s\<lparr>colls := (colls s)(''solve'' := colls s ''solve'' @
            [(new_oid s, [''challenge_id'' \<mapsto> VStr (fst ch),
                          ''username'' \<mapsto> VStr ''anonymous'',
                          ''points'' \<mapsto> VInt n])]),
         next_oid := Suc (next_oid s)\<rparr>)"
    using a by (simp add: submit_flag_found)
next
  assume a: "ObjectId (challenge_id p) = Inr i \<and>
      find (\<lambda>d. fst d = i) (colls s ''challenge'') = Some ch \<and>
      truthy (dict_get (as_dict ch) ''is_active'' (VBool True)) \<and>
      as_dict ch ''flag_hash'' = Some (VStr (sha256 (submitted_flag p))) \<and>
      as_dict ch ''points'' = None"
  then have "SolveSchema (fst ch) ''anonymous'' (dict_get (as_dict ch) ''points'' (VInt 0))
      = Inr [''challenge_id'' \<mapsto> VStr (fst ch), ''username'' \<mapsto> VStr ''anonymous'',
             ''points'' \<mapsto> VInt 0]"
    by (simp add: SolveSchema_def dict_get_def)
  with a show "submit_flag no_faults s p =
      (Inr (FlagAccepted ''Flag accepted''),
       s\<lparr>colls := (colls s)(''solve'' := colls s ''solve'' @
            [(new_oid s, [''challenge_id'' \<mapsto> VStr (fst ch),
                          ''username'' \<mapsto> VStr ''anonymous'',
                          ''points'' \<mapsto> VInt 0])]),
         next_oid := Suc (next_oid s)\<rparr>)"
    by (simp add: submit_flag_found)
qed

theorem submit_flag_missing_fields_witness:
  "submit_flag no_faults ctf_db
        \<lparr>challenge_id = ''000000000000000000000007'', submitted_flag = ''guess''\<rparr>
     = (Inl (HTTPException 400 ''Incorrect flag''), ctf_db)
   \<and> submit_flag no_faults ctf_db
        \<lparr>challenge_id = ''000000000000000000000002'', submitted_flag = ''flag{old}''\<rparr>
     = (Inr (FlagAccepted ''Flag accepted''),
        ctf_db\<lparr>colls := (colls ctf_db)(''solve'' := colls ctf_db ''solve'' @
              [(new_oid ctf_db, [''challenge_id'' \<mapsto> VStr ''000000000000000000000002'',
                                 ''username'' \<mapsto> VStr ''anonymous'',
                                 ''points'' \<mapsto> VInt 0])]),
           next_oid := Suc (next_oid ctf_db)\<rparr>)"
proof (intro conjI)
  show "submit_flag no_faults ctf_db
        \<lparr>challenge_id = ''000000000000000000000007'', submitted_flag = ''guess''\<rparr>
     = (Inl (HTTPException 400 ''Incorrect flag''), ctf_db)"
    using submit_flag_missing_fields [where s = ctf_db and i = "''000000000000000000000007''"
        and ch = unsolvable
        and p = "\<lparr>challenge_id = ''000000000000000000000007'', submitted_flag = ''guess''\<rparr>"]
      sha256_not_deadbeef [of "''guess''"]
    by (simp add: ObjectId_examples ctf_find ctf_fields)
  show "submit_flag no_faults ctf_db
        \<lparr>challenge_id = ''000000000000000000000002'', submitted_flag = ''flag{old}''\<rparr>
     = (Inr (FlagAccepted ''Flag accepted''),
        ctf_db\<lparr>colls := (colls ctf_db)(''solve'' := colls ctf_db ''solve'' @
              [(new_oid ctf_db, [''challenge_id'' \<mapsto> VStr ''000000000000000000000002'',
                                 ''username'' \<mapsto> VStr ''anonymous'',
                                 ''points'' \<mapsto> VInt 0])]),
           next_oid := Suc (next_oid ctf_db)\<rparr>)"
    using submit_flag_missing_fields [where s = ctf_db and i = "''000000000000000000000002''"
        and ch = legacy
        and p = "\<lparr>challenge_id = ''000000000000000000000002'', submitted_flag = ''flag{old}''\<rparr>"]
    by (simp add: ObjectId_examples ctf_find ctf_fields ctf_ids dict_get_def)
qed

section \<open>Store failures\<close>

lemma store_failure_propagates:
  assumes "flt 0 = Some msg"
  shows "register flt s rp = (Inl (StoreFailure msg), s)"
    and "login flt s lp = (Inl (StoreFailure msg), s)"
    and "list_challenges flt s = (Inl (StoreFailure msg), s)"
    and "leaderboard flt s = (Inl (StoreFailure msg), s)"
    and "0 \<le> points cp \<Longrightarrow> contribute_challenge flt s cp = (Inl (StoreFailure msg), s)"
  using assms
  by (simp_all add: register_def login_def list_challenges_def leaderboard_def
        contribute_challenge_valid find_one_def get_documents_def aggregate_def)

lemma store_failure_on_create:
  assumes "flt 0 = None" and "flt 1 = Some msg"
  shows "fst (register flt s rp) = Inl (StoreFailure msg)
           \<or> fst (register flt s rp) = Inl (HTTPException 400 ''Username or email already exists'')"
  using assms
  by (simp add: register_def find_one_def create_document_fault split: option.split)

lemma test_database_reports_inline:
  "flt 0 = Some msg \<Longrightarrow> db_name dep = Some name \<Longrightarrow>
   database (test_database flt dep) = warning_sign @ ''  Connected but Error: '' @ take_chars 50 msg"
  by (simp add: test_database_def)

lemma submit_flag_lookup_failure:
  "ObjectId (challenge_id p) = Inr i \<Longrightarrow> flt 0 = Some msg \<Longrightarrow>
   submit_flag flt s p = (Inl (HTTPException 400 ''Invalid challenge id''), s)"
  by (simp add: submit_flag_def find_challenge_def find_one_def)

text \<open>
  C7. The claim: a failure of the store during the lookup of the challenge in submit-flag
  is reported as the generic internal error, not as a 400. Here the store cannot be
  reached and the identifier is well-formed and that of a stored challenge: the handler
  answers 400 "Invalid challenge id", where login, under the same failure, lets the
  failure through (status 500).
\<close>

theorem submit_flag_store_failure_answers_400:
  "submit_flag unreachable ctf_db
       \<lparr>challenge_id = ''000000000000000000000001'', submitted_flag = ''flag{abc}''\<rparr>
     = (Inl (HTTPException 400 ''Invalid challenge id''), ctf_db)
   \<and> status (fst (submit_flag unreachable ctf_db
       \<lparr>challenge_id = ''000000000000000000000001'', submitted_flag = ''flag{abc}''\<rparr>)) = 400
   \<and> status (fst (login unreachable ctf_db
       \<lparr>login_username = ''alice'', login_password = ''pw123''\<rparr>)) = 500"
  by (simp add: submit_flag_def find_challenge_def find_one_def login_def unreachable_def
        ObjectId_examples)
section \<open>Documents are only ever created\<close>

lemma create_document_prefix:
  "prefix (colls s c) (colls (snd (create_document fault s n data)) c)"
  by (cases fault) (simp_all add: create_document_def)

lemma snd_after_create:
  "snd (case create_document fault s n data of
          (Inl e, s') \<Rightarrow> (Inl e, s')
        | (Inr x, s') \<Rightarrow> (Inr (f x), s')) = snd (create_document fault s n data)"
  by (cases fault) (simp_all add: create_document_def)

lemma register_prefix: "prefix (colls s c) (colls (snd (register flt s p)) c)"
  unfolding register_def Let_def
  by (simp add: snd_after_create create_document_prefix split: sum.split option.split)

lemma login_unchanged: "snd (login flt s p) = s"
  unfolding login_def Let_def
  by (simp split: sum.split option.split)

lemma contribute_challenge_prefix:
  "prefix (colls s c) (colls (snd (contribute_challenge flt s p)) c)"
  unfolding contribute_challenge_def
  by (simp add: snd_after_create create_document_prefix split: sum.split)

lemma list_challenges_unchanged: "snd (list_challenges flt s) = s"
  unfolding list_challenges_def
  by (simp split: sum.split)

lemma submit_flag_prefix: "prefix (colls s c) (colls (snd (submit_flag flt s p)) c)"
  unfolding submit_flag_def
  by (simp add: snd_after_create create_document_prefix split: sum.split option.split)

lemma leaderboard_unchanged: "snd (leaderboard flt s) = s"
  unfolding leaderboard_def
  by (simp split: sum.split)

lemma app_prefix: "prefix (colls s c) (colls (snd (app flt s r)) c)"
  by (cases r)
    (simp_all add: register_prefix login_unchanged contribute_challenge_prefix
       list_challenges_unchanged submit_flag_prefix leaderboard_unchanged)

text \<open>
  C9. Whatever the requests served, the store before them and the faults of the store
  during them, every collection afterwards begins with the documents it held before, in
  their order and unchanged: an endpoint may append documents and does nothing else to
  the store, so a document, once created, stays as it is.
\<close>

theorem serve_only_creates:
  "prefix (colls s c) (colls (serve reqs s) c)"
proof (induction reqs arbitrary: s)
  case Nil
  show ?case
    by simp
next
  case (Cons q reqs)
  obtain flt r where q: "q = (flt, r)"
    by (cases q)
  have "prefix (colls s c) (colls (snd (app flt s r)) c)"
    by (rule app_prefix)
  also have "prefix (colls (snd (app flt s r)) c) (colls (serve reqs (snd (app flt s r))) c)"
    by (rule Cons.IH)
  finally show ?case
    by (simp add: q)
qed

section \<open>The leaderboard\<close>

lemma sorted_sort_desc: "sorted_wrt (\<lambda>a b. snd b \<le> snd a) (sort_desc rows)"
proof -
  have "sorted (map (\<lambda>r. - snd r) (sort_key (\<lambda>r. - snd r) rows))"
    by (rule sorted_sort_key)
  then show ?thesis
    by (simp add: sort_desc_def sorted_wrt_map)
qed

lemma set_sort_desc: "set (sort_desc rows) = set rows"
  by (simp add: sort_desc_def)

lemma distinct_fst_sort_desc:
  "distinct (map fst rows) \<Longrightarrow> distinct (map fst (sort_desc rows))"
  by (simp add: sort_desc_def distinct_map)

lemma fst_group_sum: "map fst (group_sum k f ds) = remdups (map (group_key k) ds)"
  by (simp add: group_sum_def comp_def)

lemma snd_group_sum: "r \<in> set (group_sum k f ds) \<Longrightarrow> snd r = group_total k f ds (fst r)"
  by (auto simp: group_sum_def)

text \<open>
  C5. With a working store and whatever the solve collection holds, the leaderboard is
  the first 50 rows of a ranking that is sorted by descending score, has one row for each
  username that occurs in a solve and for no other, and gives each username the sum of
  the points of its solves. So a board has at most 50 entries, and a username without a
  solve is not on it.
\<close>

theorem leaderboard_ranking:
  "\<exists>rows. leaderboard no_faults s = (Inr (Board (take 50 rows)), s) \<and>
      length (take 50 rows) \<le> 50 \<and>
      sorted_wrt (\<lambda>a b. snd b \<le> snd a) rows \<and>
      distinct (map fst rows) \<and>
      fst ` set rows = group_key ''username'' ` set (colls s ''solve'') \<and>
      (\<forall>r \<in> set rows.
         snd r = sum_list (map (\<lambda>d. numeric (dict_get (as_dict d) ''points'' VNull))
                   (filter (\<lambda>d. group_key ''username'' d = fst r) (colls s ''solve''))))"
proof -
  let ?rows = "sort_desc (group_sum ''username'' ''points'' (colls s ''solve''))"
  have "map (\<lambda>r. (fst r, snd r)) (take 50 ?rows) = take 50 ?rows"
    by simp
  then have 1: "leaderboard no_faults s = (Inr (Board (take 50 ?rows)), s)"
    by (simp add: leaderboard_def no_faults_def aggregate_def)
  have 2: "distinct (map fst ?rows)"
    by (rule distinct_fst_sort_desc) (simp add: fst_group_sum)
  have "fst ` set ?rows = set (map fst (group_sum ''username'' ''points'' (colls s ''solve'')))"
    by (simp add: set_sort_desc)
  then have 3: "fst ` set ?rows = group_key ''username'' ` set (colls s ''solve'')"
    by (simp only: fst_group_sum set_remdups set_map)
  have 4: "\<forall>r \<in> set ?rows.
         snd r = sum_list (map (\<lambda>d. numeric (dict_get (as_dict d) ''points'' VNull))
                   (filter (\<lambda>d. group_key ''username'' d = fst r) (colls s ''solve'')))"
    using snd_group_sum [of _ "''username''" "''points''" "colls s ''solve''"]
    by (simp add: set_sort_desc group_total_def)
  have 5: "length (take 50 ?rows) \<le> 50"
    by simp
  from 1 5 sorted_sort_desc [of "group_sum ''username'' ''points'' (colls s ''solve'')"] 2 3 4
  show ?thesis
    by (intro exI [of _ ?rows] conjI)
qed
lemma ctf_solves:
  "colls ctf_db ''solve'' =
     [(''000000000000000000000004'', solve_of ''000000000000000000000001'' ''anonymous'' 100),
      (''000000000000000000000005'', solve_of ''000000000000000000000001'' ''bob'' 250),
      (''000000000000000000000006'', solve_of ''000000000000000000000003'' ''anonymous'' 50)]"
  by (simp add: ctf_db_def)

lemma solve_of_fields:
  "group_key ''username'' (i, solve_of cid name n) = VStr name"
  "dict_get (as_dict (i, solve_of cid name n)) ''points'' VNull = VInt n"
  by (simp_all add: group_key_def dict_get_def as_dict_def solve_of_def)

lemma ctf_board:
  "leaderboard no_faults ctf_db
     = (Inr (Board [(VStr ''bob'', 250), (VStr ''anonymous'', 150)]), ctf_db)"
  by (simp add: leaderboard_def no_faults_def aggregate_def ctf_solves sort_desc_def
        group_sum_def group_total_def solve_of_fields)

theorem leaderboard_ranking_witness:
  "\<exists>rows. take 50 rows = [(VStr ''bob'', 250 :: int), (VStr ''anonymous'', 150)] \<and>
      sorted_wrt (\<lambda>a b. snd b \<le> snd a) rows \<and>
      distinct (map fst rows)"
proof -
  from leaderboard_ranking [of ctf_db] obtain rows where
    b: "leaderboard no_faults ctf_db = (Inr (Board (take 50 rows)), ctf_db)"
    and s: "sorted_wrt (\<lambda>a b. snd b \<le> snd a) rows"
    and d: "distinct (map fst rows)"
    by blast
  from b have "take 50 rows = [(VStr ''bob'', 250), (VStr ''anonymous'', 150)]"
    by (simp add: ctf_board)
  with s d show ?thesis
    by blast
qed

end
